theory Spec2Isabelle
  imports Main "HOL-Library.Sublist"
begin

section \<open>Strings\<close>

text \<open>
  A JavaScript string is a sequence of code units. The model uses \<^typ>\<open>string\<close> and
  reads every \<^typ>\<open>char\<close> as the code unit of the same number, so it covers the
  strings whose code units are below 256. On these, white space (what \<open>trim\<close>
  strips and what \<open>\s\<close> matches) is TAB, LF, VT, FF, CR, SP and NBSP, and
  \<open>toLowerCase\<close> works unit by unit.
\<close>

definition is_space :: "char \<Rightarrow> bool" where
  "is_space c \<longleftrightarrow> c \<in> {CHR 0x09, CHR 0x0A, CHR 0x0B, CHR 0x0C, CHR 0x0D, CHR 0x20, CHR 0xA0}"

definition trim :: "string \<Rightarrow> string" where
  "trim s = rev (dropWhile is_space (rev (dropWhile is_space s)))"

definition lower_unit :: "char \<Rightarrow> char" where
  "lower_unit c =
     (let n = (of_char c :: nat)
      in if (65 \<le> n \<and> n \<le> 90) \<or> (192 \<le> n \<and> n \<le> 222 \<and> n \<noteq> 215)
         then char_of (n + 32) else c)"

definition toLowerCase :: "string \<Rightarrow> string" where
  "toLowerCase s = map lower_unit s"

text \<open>\<open>s.startsWith(q)\<close>, and \<open>s.includes(q)\<close> as a scan of \<open>s\<close> from the left (\<open>includes\<close> is a keyword here, hence the longer name).\<close>

fun startsWith :: "string \<Rightarrow> string \<Rightarrow> bool" where
  "startsWith s [] = True"
| "startsWith [] (q # qs) = False"
| "startsWith (c # cs) (q # qs) = (c = q \<and> startsWith cs qs)"

fun includesStr :: "string \<Rightarrow> string \<Rightarrow> bool" where
  "includesStr [] q = (q = [])"
| "includesStr (c # cs) q = (startsWith (c # cs) q \<or> includesStr cs q)"

text \<open>\<open>s.replaceAll(c, r)\<close> for a pattern \<open>c\<close> of one code unit.\<close>

fun replaceAll :: "char \<Rightarrow> string \<Rightarrow> string \<Rightarrow> string" where
  "replaceAll c r [] = []"
| "replaceAll c r (x # xs) = (if x = c then r @ replaceAll c r xs else x # replaceAll c r xs)"

section \<open>Escaping\<close>

text \<open>
  \<open>escapeHtml\<close> is the same function in both applications. Its callers pass strings,
  on which \<open>String(str ?? '')\<close> is the identity.
\<close>

definition escapeHtml :: "string \<Rightarrow> string" where
  "escapeHtml str =
     replaceAll (CHR 0x27) ''&#39;''
       (replaceAll (CHR 0x22) ''&quot;''
         (replaceAll (CHR ''>'') ''&gt;''
           (replaceAll (CHR ''<'') ''&lt;''
             (replaceAll (CHR ''&'') ''&amp;'' str))))"

definition entities :: "string list" where
  "entities = [''&amp;'', ''&lt;'', ''&gt;'', ''&quot;'', ''&#39;'']"

text \<open>What the five replacements together do to one code unit.\<close>

definition esc :: "char \<Rightarrow> string" where
  "esc c =
     (if c = CHR ''&'' then ''&amp;'' else if c = CHR ''<'' then ''&lt;''
      else if c = CHR ''>'' then ''&gt;'' else if c = CHR 0x22 then ''&quot;''
      else if c = CHR 0x27 then ''&#39;'' else [c])"

fun amp_ok :: "string \<Rightarrow> bool" where
  "amp_ok [] = True"
| "amp_ok (c # cs) =
     ((c = CHR ''&'' \<longrightarrow> (\<exists>e\<in>set entities. prefix e (c # cs))) \<and> amp_ok cs)"

section \<open>Field validators of the contact form\<close>

text \<open>
  The e-mail pattern \<open>/^[^\s@]+@[^\s@]+\.[^\s@]+$/\<close> is a sequence of literal code
  units and of classes under \<open>+\<close>. A pattern is a list of such pieces, and
  \<open>re_test\<close> matches the whole string, as the anchors \<open>^\<close> and \<open>$\<close> ask;
  like the greedy \<open>+\<close> it tries the longer repetition first.
\<close>

datatype cls = NotSpaceAt | NotSpace

fun in_cls :: "cls \<Rightarrow> char \<Rightarrow> bool" where
  "in_cls NotSpaceAt c = (\<not> is_space c \<and> c \<noteq> CHR ''@'')"
| "in_cls NotSpace c = (\<not> is_space c)"

datatype piece = Lit char | Many1 cls

fun re_test :: "piece list \<Rightarrow> string \<Rightarrow> bool" where
  "re_test [] s = (s = [])"
| "re_test (Lit c # ps) [] = False"
| "re_test (Lit c # ps) (x # xs) = (x = c \<and> re_test ps xs)"
| "re_test (Many1 k # ps) [] = False"
| "re_test (Many1 k # ps) (x # xs) =
     (in_cls k x \<and> (re_test (Many1 k # ps) xs \<or> re_test ps xs))"

definition email_re :: "piece list" where
  "email_re = [Many1 NotSpaceAt, Lit (CHR ''@''), Many1 NotSpaceAt, Lit (CHR ''.''), Many1 NotSpaceAt]"

record validation =
  valid :: bool
  message :: string

text \<open>The validators get the \<open>value\<close> of an input element, a string.\<close>

definition validateName :: "string \<Rightarrow> validation" where
  "validateName value =
     (let v = trim value
      in if length v = 0 then \<lparr>valid = False, message = ''Name is required.''\<rparr>
         else if length v < 2
           then \<lparr>valid = False, message = ''Name must have at least 2 characters.''\<rparr>
         else \<lparr>valid = True, message = []\<rparr>)"

definition validateEmail :: "string \<Rightarrow> validation" where
  "validateEmail value =
     (let v = trim value
      in if length v = 0 then \<lparr>valid = False, message = ''Email is required.''\<rparr>
         else if re_test email_re v then \<lparr>valid = True, message = []\<rparr>
         else \<lparr>valid = False, message = ''Enter a valid email.''\<rparr>)"

definition validateMessage :: "string \<Rightarrow> validation" where
  "validateMessage value =
     (let v = trim value
      in if length v = 0 then \<lparr>valid = False, message = ''Message is required.''\<rparr>
         else if length v < 10
           then \<lparr>valid = False, message = ''Message must be at least 10 characters.''\<rparr>
         else \<lparr>valid = True, message = []\<rparr>)"

text \<open>
  The pattern as the specification words it, \<open>nonspace+@nonspace+.nonspace+\<close>, for
  comparison with \<open>email_re\<close>.
\<close>

definition nonspace_email_pattern :: "piece list" where
  "nonspace_email_pattern =
     [Many1 NotSpace, Lit (CHR ''@''), Many1 NotSpace, Lit (CHR ''.''), Many1 NotSpace]"

section \<open>Entities, stored values and the platform\<close>

text \<open>
  The two entities, with the fields of the object literals that the submit handlers
  build (\<open>t.id\<close>, \<open>t.text\<close>, ... for a todo; \<open>m.id\<close>, \<open>m.name\<close>, ... for a message).
\<close>

record todo =
  t_id :: string
  t_text :: string
  t_completed :: bool
  t_createdAt :: string

record contact_message =
  m_id :: string
  m_name :: string
  m_email :: string
  m_message :: string
  m_sentAt :: int

text \<open>
  \<open>JSON.parse\<close> returns any JSON value, and the variables \<open>todos\<close> and \<open>messages\<close>
  hold whatever the load functions return. A value is an array of entities or a value
  that is no array: \<open>null\<close>, a boolean, a number, a string or an object. Arrays of
  anything but entities are not represented.
\<close>

datatype json =
  JNull | JBool bool | JNum int | JStr string | JArr "json list" | JObj "(string \<times> json) list"

datatype 'a jsvalue =
  VArr "'a list" | VNull | VBool bool | VNum int | VStr string | VObj "(string \<times> json) list"

text \<open>
  The platform: \<open>localStorage.getItem\<close> and \<open>localStorage.setItem\<close> on a store of
  type \<open>'s\<close>, each of which may throw, and \<open>JSON.parse\<close> (\<open>None\<close> is its
  \<open>SyntaxError\<close>) and \<open>JSON.stringify\<close>. A \<open>setItem\<close> that throws leaves the store
  as it was.
\<close>

datatype 'a outcome = Throws | Returns 'a

record ('s, 'a) platform =
  getItem :: "'s \<Rightarrow> string \<Rightarrow> string option outcome"
  setItem :: "'s \<Rightarrow> string \<Rightarrow> string \<Rightarrow> 's outcome"
  JSON_parse :: "string \<Rightarrow> 'a jsvalue option"
  JSON_stringify :: "'a jsvalue \<Rightarrow> string"

section \<open>Persistence\<close>

definition STORAGE_KEY_todo :: string where
  "STORAGE_KEY_todo = ''todo_list_v1''"

definition STORAGE_KEY_contact :: string where
  "STORAGE_KEY_contact = ''contact_messages''"

text \<open>
  \<open>raw ? JSON.parse(raw) : []\<close> inside \<open>try\<close>: \<open>null\<close> and the empty string are
  falsy, and every exception ends in \<open>return []\<close>.
\<close>

definition loadTodos :: "('s, todo) platform \<Rightarrow> 's \<Rightarrow> todo jsvalue" where
  "loadTodos P st =
     (case getItem P st STORAGE_KEY_todo of
        Throws \<Rightarrow> VArr []
      | Returns None \<Rightarrow> VArr []
      | Returns (Some raw) \<Rightarrow>
          if raw = [] then VArr []
          else (case JSON_parse P raw of None \<Rightarrow> VArr [] | Some v \<Rightarrow> v))"

text \<open>The save functions return the success flag and the store after the call.\<close>

definition saveTodos :: "('s, todo) platform \<Rightarrow> 's \<Rightarrow> todo jsvalue \<Rightarrow> bool \<times> 's" where
  "saveTodos P st todos =
     (case setItem P st STORAGE_KEY_todo (JSON_stringify P todos) of
        Returns st' \<Rightarrow> (True, st')
      | Throws \<Rightarrow> (False, st))"

definition loadMessages :: "('s, contact_message) platform \<Rightarrow> 's \<Rightarrow> contact_message jsvalue" where
  "loadMessages P st =
     (case getItem P st STORAGE_KEY_contact of
        Throws \<Rightarrow> VArr []
      | Returns None \<Rightarrow> VArr []
      | Returns (Some raw) \<Rightarrow>
          if raw = [] then VArr []
          else (case JSON_parse P raw of None \<Rightarrow> VArr [] | Some v \<Rightarrow> v))"

definition saveMessages ::
  "('s, contact_message) platform \<Rightarrow> 's \<Rightarrow> contact_message jsvalue \<Rightarrow> bool \<times> 's" where
  "saveMessages P st messages =
     (case setItem P st STORAGE_KEY_contact (JSON_stringify P messages) of
        Returns st' \<Rightarrow> (True, st')
      | Throws \<Rightarrow> (False, st))"

section \<open>List derivation of the todo list\<close>

text \<open>
  \<open>applyFiltersAndSearch\<close> reads \<open>todos\<close>, \<open>currentFilter\<close> and \<open>currentQuery\<close> and
  hands the derived list to the renderer; the model returns that list. The repository
  holds the function twice. The copy in \<open>Dynamic Todo List with Search/script.js\<close>
  ends after the search:
\<close>

definition applyFiltersAndSearch :: "todo list \<Rightarrow> string \<Rightarrow> string \<Rightarrow> todo list" where
  "applyFiltersAndSearch todos currentFilter currentQuery =
     (let q = toLowerCase (trim currentQuery);
          results = todos;
          results = (if currentFilter = ''active'' then filter (\<lambda>t. \<not> t_completed t) results
                     else if currentFilter = ''completed'' then filter (\<lambda>t. t_completed t) results
                     else results);
          results = (if length q > 0
                     then filter (\<lambda>t. includesStr (toLowerCase (t_text t)) q) results
                     else results)
      in results)"

text \<open>
  The other copy sorts before rendering, with the comparator
  \<open>(a,b) => new Date(b.createdAt) - new Date(a.createdAt)\<close>. The time value of a date
  string is a parameter \<open>tv\<close> (\<open>None\<close> for an invalid date, whose time value is
  \<open>NaN\<close>); a comparator result \<open>NaN\<close> counts as 0 in \<open>sort\<close>. \<open>Array.prototype.sort\<close>
  is stable: it is modelled as an insertion sort that leaves elements which compare
  as equal in their order. For a consistent comparator, which this one is when every
  date is valid, that is the order ECMAScript prescribes; for any other, ECMAScript
  promises a permutation only and leaves the order to the implementation.
\<close>

definition newest_first :: "(string \<Rightarrow> int option) \<Rightarrow> todo \<Rightarrow> todo \<Rightarrow> int" where
  "newest_first tv a b =
     (case (tv (t_createdAt b), tv (t_createdAt a)) of
        (Some tb, Some ta) \<Rightarrow> tb - ta
      | _ \<Rightarrow> 0)"

fun sort_insert :: "('a \<Rightarrow> 'a \<Rightarrow> int) \<Rightarrow> 'a \<Rightarrow> 'a list \<Rightarrow> 'a list" where
  "sort_insert cmp x [] = [x]"
| "sort_insert cmp x (y # ys) =
     (if cmp x y \<le> 0 then x # y # ys else y # sort_insert cmp x ys)"

definition array_sort :: "('a \<Rightarrow> 'a \<Rightarrow> int) \<Rightarrow> 'a list \<Rightarrow> 'a list" where
  "array_sort cmp xs = foldr (sort_insert cmp) xs []"

definition applyFiltersAndSearch_sorting ::
  "(string \<Rightarrow> int option) \<Rightarrow> todo list \<Rightarrow> string \<Rightarrow> string \<Rightarrow> todo list" where
  "applyFiltersAndSearch_sorting tv todos currentFilter currentQuery =
     (let q = toLowerCase (trim currentQuery);
          results = todos;
          results = (if currentFilter = ''active'' then filter (\<lambda>t. \<not> t_completed t) results
                     else if currentFilter = ''completed'' then filter (\<lambda>t. t_completed t) results
                     else results);
          results = (if length q > 0
                     then filter (\<lambda>t. includesStr (toLowerCase (t_text t)) q) results
                     else results)
      in array_sort (newest_first tv) results)"

text \<open>
  The derivation as the specification words it: keep the items of the filter mode;
  if the query is not empty after trimming, keep the items whose text contains it,
  case ignored; sort by creation timestamp, descending.
\<close>

definition mode_keeps :: "string \<Rightarrow> todo \<Rightarrow> bool" where
  "mode_keeps filterMode t \<longleftrightarrow>
     filterMode = ''all'' \<or> (filterMode = ''active'' \<and> \<not> t_completed t)
       \<or> (filterMode = ''completed'' \<and> t_completed t)"

definition contains_ci :: "string \<Rightarrow> string \<Rightarrow> bool" where
  "contains_ci txt q \<longleftrightarrow> sublist (toLowerCase q) (toLowerCase txt)"

definition derive_unsorted :: "todo list \<Rightarrow> string \<Rightarrow> string \<Rightarrow> todo list" where
  "derive_unsorted allItems filterMode query =
     (let kept = filter (mode_keeps filterMode) allItems
      in if trim query \<noteq> [] then filter (\<lambda>t. contains_ci (t_text t) (trim query)) kept
         else kept)"

definition timestamp :: "(string \<Rightarrow> int option) \<Rightarrow> todo \<Rightarrow> int" where
  "timestamp tv t = (case tv (t_createdAt t) of Some n \<Rightarrow> n | None \<Rightarrow> 0)"

definition derive :: "(string \<Rightarrow> int option) \<Rightarrow> todo list \<Rightarrow> string \<Rightarrow> string \<Rightarrow> todo list" where
  "derive tv allItems filterMode query =
     sort_key (\<lambda>t. - timestamp tv t) (derive_unsorted allItems filterMode query)"

section \<open>Event handlers of the todo list\<close>

text \<open>
  The state of the todo application: the three variables of the script, the value of
  the input field, the text and class of the message element, and the store. The
  content of the list container is derived from this state by
  \<open>applyFiltersAndSearch\<close> and is not stored in it; focus and timers are left out.

  A handler is a function from the state before the event to the state in which the
  handler leaves the application. The handlers are the same in both copies of the
  script. A method call \<open>todos.filter\<close>, \<open>todos.unshift\<close> or \<open>todos.find\<close> on a
  value that is no array throws a \<open>TypeError\<close> that nothing catches, so the handler
  ends there with the state it has reached. The rendering call that closes a handler
  does not change the state.
\<close>

record 's todo_app =
  todos :: "todo jsvalue"
  currentFilter :: string
  currentQuery :: string
  todoInput :: string
  submitMsg :: string
  submitMsgClass :: string
  todoStore :: 's

text \<open>
  Every call of \<open>showSubmitMessage\<close> passes its own options with a \<open>type\<close> only, so
  no call sets the timer that would clear the message.
\<close>

definition showSubmitMessage :: "string \<Rightarrow> string \<Rightarrow> 's todo_app \<Rightarrow> 's todo_app" where
  "showSubmitMessage txt type app =
     app\<lparr>submitMsg := txt,
         submitMsgClass := (if type = ''success'' then ''success'' else ''error'')\<rparr>"

text \<open>
  The submit handler. The identifier (\<open>crypto.randomUUID()\<close> or the clock) and the
  creation time (\<open>new Date().toISOString()\<close>) of the new item are inputs.
\<close>

definition todo_submit ::
  "('s, todo) platform \<Rightarrow> string \<Rightarrow> string \<Rightarrow> 's todo_app \<Rightarrow> 's todo_app" where
  "todo_submit P newId now app =
     (let v = trim (todoInput app)
      in if v = [] then showSubmitMessage ''Please enter a todo.'' ''error'' app
         else if length v < 3
           then showSubmitMessage ''Todo must be at least 3 characters.'' ''error'' app
         else
           (let newTodo = \<lparr>t_id = newId, t_text = v, t_completed = False, t_createdAt = now\<rparr>
            in case todos app of
                 VArr ts \<Rightarrow>
                   (let unshifted = VArr (newTodo # ts);
                        (ok, st) = saveTodos P (todoStore app) unshifted
                    in if \<not> ok
                       then (showSubmitMessage
                               ''Could not save todo locally. Check storage settings.'' ''error''
                               app)\<lparr>todos := loadTodos P st, todoStore := st\<rparr>
                       else showSubmitMessage ''Todo added!'' ''success''
                              (app\<lparr>todos := unshifted, todoStore := st, todoInput := []\<rparr>))
               | _ \<Rightarrow> app))"

text \<open>
  The click handler of the list container. The event is a click on a delete button
  or on a completion checkbox, each with its \<open>data-id\<close> (empty when the attribute is
  missing or empty), or a click elsewhere; the answer to \<open>confirm\<close> is an input.
\<close>

datatype click = DeleteBtn string | ToggleComplete string bool | Elsewhere

text \<open>\<open>t.completed = !!toggle.checked\<close> on the item that \<open>todos.find\<close> returns, the first with the identifier.\<close>

fun set_completed :: "string \<Rightarrow> bool \<Rightarrow> todo list \<Rightarrow> todo list" where
  "set_completed i checked [] = []"
| "set_completed i checked (x # xs) =
     (if t_id x = i then x\<lparr>t_completed := checked\<rparr> # xs else x # set_completed i checked xs)"

definition todo_click ::
  "('s, todo) platform \<Rightarrow> bool \<Rightarrow> click \<Rightarrow> 's todo_app \<Rightarrow> 's todo_app" where
  "todo_click P confirmed ev app =
     (case ev of
        DeleteBtn i \<Rightarrow>
          if i = [] then app
          else if \<not> confirmed then app
          else
            (case todos app of
               VArr ts \<Rightarrow>
                 (let remaining = VArr (filter (\<lambda>t. t_id t \<noteq> i) ts);
                      (ok, st) = saveTodos P (todoStore app) remaining
                  in if \<not> ok
                     then (showSubmitMessage ''Could not delete todo (storage error).'' ''error''
                             app)\<lparr>todos := loadTodos P st, todoStore := st\<rparr>
                     else app\<lparr>todos := remaining, todoStore := st\<rparr>)
             | _ \<Rightarrow> app)
      | ToggleComplete i checked \<Rightarrow>
          if i = [] then app
          else
            (case todos app of
               VArr ts \<Rightarrow>
                 (case find (\<lambda>x. t_id x = i) ts of
                    None \<Rightarrow> app
                  | Some _ \<Rightarrow>
                      (let toggled = VArr (set_completed i checked ts);
                           (ok, st) = saveTodos P (todoStore app) toggled
                       in if \<not> ok
                          then (showSubmitMessage ''Could not update todo (storage error).''
                                  ''error'' app)\<lparr>todos := loadTodos P st, todoStore := st\<rparr>
                          else app\<lparr>todos := toggled, todoStore := st\<rparr>))
             | _ \<Rightarrow> app)
      | Elsewhere \<Rightarrow> app)"

section \<open>Event handlers of the contact form\<close>

text \<open>
  The state of the contact form: the variable \<open>messages\<close>, the values of the three
  input fields, the texts of their error elements, the text and class of the global
  message element, the \<open>disabled\<close> flag of the submit button, and the store. The
  rendered list is derived from \<open>messages\<close>; on the only path where rendering is
  followed by further statements \<open>messages\<close> is an array of entities, which renders
  without an exception. \<open>form.reset()\<close> empties the three fields.
\<close>

record 's contact_app =
  messages :: "contact_message jsvalue"
  nameInput :: string
  emailInput :: string
  messageInput :: string
  nameError :: string
  emailError :: string
  messageError :: string
  globalMsg :: string
  globalMsgClass :: string
  submitDisabled :: bool
  contactStore :: 's

definition showGlobalMessage :: "string \<Rightarrow> string \<Rightarrow> 's contact_app \<Rightarrow> 's contact_app" where
  "showGlobalMessage txt type app =
     app\<lparr>globalMsg := txt, globalMsgClass := (if type = ''success'' then ''success'' else [])\<rparr>"

definition contact_submit ::
  "('s, contact_message) platform \<Rightarrow> string \<Rightarrow> int \<Rightarrow> 's contact_app \<Rightarrow> 's contact_app" where
  "contact_submit P newId now app =
     (let Name = validateName (nameInput app);
          Email = validateEmail (emailInput app);
          Message = validateMessage (messageInput app);
          shown = app\<lparr>nameError := (if valid Name then [] else message Name),
                      emailError := (if valid Email then [] else message Email),
                      messageError := (if valid Message then [] else message Message)\<rparr>
      in if \<not> valid Name then shown
         else if \<not> valid Email then shown
         else if \<not> valid Message then shown
         else
           (let newMessage = \<lparr>m_id = newId, m_name = trim (nameInput app),
                               m_email = trim (emailInput app),
                               m_message = trim (messageInput app), m_sentAt = now\<rparr>
            in case messages app of
                 VArr ms \<Rightarrow>
                   (let unshifted = VArr (newMessage # ms);
                        (ok, st) = saveMessages P (contactStore app) unshifted
                    in if \<not> ok
                       then showGlobalMessage
                              ''Could not save message locally. Please check browser settings.''
                              ''error''
                              (shown\<lparr>submitDisabled := False, messages := loadMessages P st,
                                     contactStore := st\<rparr>)
                       else showGlobalMessage ''Message submitted!'' ''success''
                              (shown\<lparr>messages := unshifted, contactStore := st,
                                     nameInput := [], emailInput := [], messageInput := [],
                                     nameError := [], emailError := [], messageError := [],
                                     submitDisabled := False\<rparr>))
               | _ \<Rightarrow> shown))"

text \<open>
  The click handler of the message list: \<open>Some i\<close> is a click on a delete button with
  \<open>data-id\<close> \<open>i\<close>, \<open>None\<close> a click elsewhere.
\<close>

definition contact_click ::
  "('s, contact_message) platform \<Rightarrow> bool \<Rightarrow> string option \<Rightarrow> 's contact_app \<Rightarrow> 's contact_app" where
  "contact_click P confirmed btn app =
     (case btn of
        None \<Rightarrow> app
      | Some i \<Rightarrow>
          if i = [] then app
          else if \<not> confirmed then app
          else
            (case messages app of
               VArr ms \<Rightarrow>
                 (let remaining = VArr (filter (\<lambda>m. m_id m \<noteq> i) ms);
                      (ok, st) = saveMessages P (contactStore app) remaining
                  in if \<not> ok
                     then (showGlobalMessage ''Could not delete message (storage error).''
                             ''error'' app)\<lparr>messages := loadMessages P st, contactStore := st\<rparr>
                     else app\<lparr>messages := remaining, contactStore := st\<rparr>)
             | _ \<Rightarrow> app))"

section \<open>Data for examples\<close>

text \<open>
  A store that is a finite map from keys to texts and that accepts writes or refuses
  them all, with a JSON reader that knows three texts and a JSON writer that only
  tells the empty array from the rest. The examples run the handlers on it.
\<close>

definition example_parse :: "string \<Rightarrow> 'a jsvalue option" where
  "example_parse raw =
     (if raw = ''[]'' then Some (VArr []) else if raw = ''5'' then Some (VNum 5)
      else if raw = ''{}'' then Some (VObj []) else None)"

definition example_platform :: "bool \<Rightarrow> (string \<rightharpoonup> string, 'a) platform" where
  "example_platform writable =
     \<lparr>getItem = (\<lambda>st k. Returns (st k)),
      setItem = (\<lambda>st k v. if writable then Returns (st(k \<mapsto> v)) else Throws),
      JSON_parse = example_parse,
      JSON_stringify = (\<lambda>v. case v of VArr [] \<Rightarrow> ''[]'' | _ \<Rightarrow> ''[{}]'')\<rparr>"

text \<open>Two dates with their time values in milliseconds, and three todo items.\<close>

definition example_tv :: "string \<Rightarrow> int option" where
  "example_tv s =
     (if s = ''2024-01-15T10:30:00.000Z'' then Some 1705314600000
      else if s = ''2024-01-16T10:30:00.000Z'' then Some 1705401000000 else None)"

definition todo_old :: todo where
  "todo_old = \<lparr>t_id = ''a'', t_text = ''Learn JavaScript DOM'', t_completed = True,
               t_createdAt = ''2024-01-15T10:30:00.000Z''\<rparr>"

definition todo_new :: todo where
  "todo_new = \<lparr>t_id = ''b'', t_text = ''Buy food'', t_completed = False,
               t_createdAt = ''2024-01-16T10:30:00.000Z''\<rparr>"

definition todo_foo :: todo where
  "todo_foo = \<lparr>t_id = ''c'', t_text = ''Foo'', t_completed = True,
               t_createdAt = ''2024-01-15T10:30:00.000Z''\<rparr>"

text \<open>
  A todo application that holds one item while its store holds the text \<open>5\<close>, with
  a given text in the input field.
\<close>

definition example_todo_app :: "string \<Rightarrow> (string \<rightharpoonup> string) todo_app" where
  "example_todo_app input =
     \<lparr>todos = VArr [todo_old], currentFilter = ''all'', currentQuery = [],
      todoInput = input, submitMsg = [], submitMsgClass = [],
      todoStore = [STORAGE_KEY_todo \<mapsto> ''5'']\<rparr>"

text \<open>A contact form with the given messages, an empty store and the three fields filled in.\<close>

definition example_message :: contact_message where
  "example_message = \<lparr>m_id = ''m1'', m_name = ''John Doe'', m_email = ''john@email.com'',
     m_message = ''Hello, this is a test message...'', m_sentAt = 1711234567890\<rparr>"

definition example_contact_app ::
  "contact_message list \<Rightarrow> (string \<rightharpoonup> string) contact_app" where
  "example_contact_app ms =
     \<lparr>messages = VArr ms, nameInput = ''Al'', emailInput = ''a@b.co'',
      messageInput = ''Hello there!!'', nameError = [], emailError = [], messageError = [],
      globalMsg = [], globalMsgClass = [], submitDisabled = False, contactStore = Map.empty\<rparr>"

section \<open>Escaping: proofs\<close>

lemma replaceAll_append:
  "replaceAll c r (xs @ ys) = replaceAll c r xs @ replaceAll c r ys"
  by (induction xs) auto

lemma escapeHtml_Nil: "escapeHtml [] = []"
  by (simp add: escapeHtml_def)

lemma escapeHtml_Cons: "escapeHtml (x # xs) = esc x @ escapeHtml xs"
  by (simp add: escapeHtml_def esc_def replaceAll_append)

lemma esc_no_markup:
  "c \<in> set (esc x) \<Longrightarrow> c \<notin> {CHR ''<'', CHR ''>'', CHR 0x22, CHR 0x27}"
  by (auto simp: esc_def split: if_splits)

lemma escapeHtml_no_markup:
  "c \<in> set (escapeHtml s) \<Longrightarrow> c \<notin> {CHR ''<'', CHR ''>'', CHR 0x22, CHR 0x27}"
  by (induction s) (auto simp: escapeHtml_Nil escapeHtml_Cons dest: esc_no_markup)

lemma amp_ok_nth:
  "amp_ok s \<Longrightarrow> i < length s \<Longrightarrow> s ! i = CHR ''&'' \<Longrightarrow> \<exists>e\<in>set entities. prefix e (drop i s)"
proof (induction s arbitrary: i)
  case Nil
  then show ?case by simp
next
  case (Cons c cs)
  show ?case
  proof (cases i)
    case 0
    with Cons.prems show ?thesis by simp
  next
    case (Suc j)
    with Cons show ?thesis by simp
  qed
qed

lemma amp_ok_esc: "amp_ok rest \<Longrightarrow> amp_ok (esc x @ rest)"
  by (simp add: esc_def entities_def)

lemma amp_ok_escapeHtml: "amp_ok (escapeHtml s)"
  by (induction s) (simp_all add: escapeHtml_Nil escapeHtml_Cons amp_ok_esc)

text \<open>
  C9. For every input string, the output of \<open>escapeHtml\<close> contains none of \<open><\<close>,
  \<open>>\<close>, the double quote and the single quote, and wherever it contains \<open>&\<close>, one of
  the five entities \<open>&amp;\<close>, \<open>&lt;\<close>, \<open>&gt;\<close>, \<open>&quot;\<close>, \<open>&#39;\<close> starts there.
\<close>

theorem escapeHtml_safe:
  "set (escapeHtml s) \<inter> {CHR ''<'', CHR ''>'', CHR 0x22, CHR 0x27} = {} \<and>
   (\<forall>i<length (escapeHtml s). escapeHtml s ! i = CHR ''&'' \<longrightarrow>
      (\<exists>e\<in>set entities. prefix e (drop i (escapeHtml s))))"
  using escapeHtml_no_markup[of _ s] amp_ok_nth[OF amp_ok_escapeHtml, of _ s] by blast

text \<open>
  The input \<open>a&lt;\<close>, entity text typed by a user, comes out as \<open>a&amp;lt;\<close>: its
  \<open>&\<close> is at index 1 and starts \<open>&amp;\<close>.
\<close>

theorem escapeHtml_safe_witness:
  "escapeHtml ''a&lt;'' = ''a&amp;lt;'' \<and> escapeHtml ''a&lt;'' ! 1 = CHR ''&''
   \<and> prefix ''&amp;'' (drop 1 (escapeHtml ''a&lt;''))"
proof -
  have e: "escapeHtml ''a&lt;'' = ''a&amp;lt;''"
    by (simp add: escapeHtml_def)
  from escapeHtml_safe[of "''a&lt;''", THEN conjunct2, rule_format, of 1]
  have "\<exists>e\<in>set entities. prefix e (drop 1 (escapeHtml ''a&lt;''))"
    by (simp add: e)
  then show ?thesis
    by (simp add: e entities_def)
qed

section \<open>The e-mail validator: proofs\<close>

lemma re_test_Lit: "re_test (Lit c # ps) s \<longleftrightarrow> (\<exists>r. s = c # r \<and> re_test ps r)"
  by (cases s) auto

lemma re_test_Many1:
  "re_test (Many1 k # ps) s \<longleftrightarrow>
     (\<exists>w r. s = w @ r \<and> w \<noteq> [] \<and> (\<forall>c\<in>set w. in_cls k c) \<and> re_test ps r)"
proof (induction s)
  case Nil
  then show ?case by simp
next
  case (Cons x xs)
  show ?case
  proof
    assume "re_test (Many1 k # ps) (x # xs)"
    then have x: "in_cls k x" and d: "re_test (Many1 k # ps) xs \<or> re_test ps xs"
      by simp_all
    from d show "\<exists>w r. x # xs = w @ r \<and> w \<noteq> [] \<and> (\<forall>c\<in>set w. in_cls k c) \<and> re_test ps r"
    proof
      assume "re_test (Many1 k # ps) xs"
      with Cons.IH obtain w r where "xs = w @ r" "\<forall>c\<in>set w. in_cls k c" "re_test ps r"
        by blast
      with x have "x # xs = (x # w) @ r \<and> x # w \<noteq> [] \<and> (\<forall>c\<in>set (x # w). in_cls k c)
          \<and> re_test ps r"
        by simp
      then show ?thesis by blast
    next
      assume "re_test ps xs"
      with x have "x # xs = [x] @ xs \<and> [x] \<noteq> [] \<and> (\<forall>c\<in>set [x]. in_cls k c) \<and> re_test ps xs"
        by simp
      then show ?thesis by blast
    qed
  next
    assume "\<exists>w r. x # xs = w @ r \<and> w \<noteq> [] \<and> (\<forall>c\<in>set w. in_cls k c) \<and> re_test ps r"
    then obtain w r where wr: "x # xs = w @ r" "w \<noteq> []" "\<forall>c\<in>set w. in_cls k c" "re_test ps r"
      by blast
    then obtain w' where w: "w = x # w'" "xs = w' @ r"
      by (cases w) auto
    show "re_test (Many1 k # ps) (x # xs)"
    proof (cases "w' = []")
      case True
      with w wr show ?thesis by simp
    next
      case False
      with w wr have "re_test (Many1 k # ps) xs"
        using Cons.IH by auto
      with w wr show ?thesis by simp
    qed
  qed
qed

lemma re_test_Many1_I:
  "w \<noteq> [] \<Longrightarrow> \<forall>c\<in>set w. in_cls k c \<Longrightarrow> re_test ps r \<Longrightarrow> re_test (Many1 k # ps) (w @ r)"
  unfolding re_test_Many1 by blast

lemma re_test_email_re:
  "re_test email_re s \<longleftrightarrow>
     (\<exists>l d t. s = l @ ''@'' @ d @ ''.'' @ t \<and> l \<noteq> [] \<and> d \<noteq> [] \<and> t \<noteq> [] \<and>
        (\<forall>c\<in>set (l @ d @ t). \<not> is_space c \<and> c \<noteq> CHR ''@''))"
  (is "?L \<longleftrightarrow> ?R")
proof
  assume ?L
  then obtain l r1 where l: "s = l @ r1" "l \<noteq> []" "\<forall>c\<in>set l. in_cls NotSpaceAt c"
    and r1: "re_test [Lit (CHR ''@''), Many1 NotSpaceAt, Lit (CHR ''.''), Many1 NotSpaceAt] r1"
    unfolding email_re_def re_test_Many1 by blast
  from r1 obtain r2 where r2: "r1 = CHR ''@'' # r2"
    "re_test [Many1 NotSpaceAt, Lit (CHR ''.''), Many1 NotSpaceAt] r2"
    unfolding re_test_Lit by blast
  from r2(2) obtain d r3 where d: "r2 = d @ r3" "d \<noteq> []" "\<forall>c\<in>set d. in_cls NotSpaceAt c"
    and r3: "re_test [Lit (CHR ''.''), Many1 NotSpaceAt] r3"
    unfolding re_test_Many1 by blast
  from r3 obtain r4 where r4: "r3 = CHR ''.'' # r4" "re_test [Many1 NotSpaceAt] r4"
    unfolding re_test_Lit by blast
  from r4(2) obtain t r5 where t: "r4 = t @ r5" "t \<noteq> []" "\<forall>c\<in>set t. in_cls NotSpaceAt c"
    and r5: "re_test [] r5"
    unfolding re_test_Many1 by blast
  have "s = l @ ''@'' @ d @ ''.'' @ t"
    using l(1) r2(1) d(1) r4(1) t(1) r5 by simp
  moreover have "\<forall>c\<in>set (l @ d @ t). \<not> is_space c \<and> c \<noteq> CHR ''@''"
    using l(3) d(3) t(3) by auto
  ultimately show ?R
    using l(2) d(2) t(2) by blast
next
  assume ?R
  then obtain l d t where s: "s = l @ ''@'' @ d @ ''.'' @ t"
    and ne: "l \<noteq> []" "d \<noteq> []" "t \<noteq> []"
    and ok: "\<forall>c\<in>set l. in_cls NotSpaceAt c" "\<forall>c\<in>set d. in_cls NotSpaceAt c"
      "\<forall>c\<in>set t. in_cls NotSpaceAt c"
    by auto
  have "re_test [Many1 NotSpaceAt] (t @ [])"
    using ne(3) ok(3) by (intro re_test_Many1_I) simp_all
  then have "re_test [Lit (CHR ''.''), Many1 NotSpaceAt] (''.'' @ t)"
    by simp
  then have "re_test [Many1 NotSpaceAt, Lit (CHR ''.''), Many1 NotSpaceAt] (d @ ''.'' @ t)"
    using ne(2) ok(2) by (intro re_test_Many1_I)
  then have "re_test [Lit (CHR ''@''), Many1 NotSpaceAt, Lit (CHR ''.''), Many1 NotSpaceAt]
               (''@'' @ d @ ''.'' @ t)"
    by simp
  then have "re_test email_re (l @ ''@'' @ d @ ''.'' @ t)"
    unfolding email_re_def using ne(1) ok(1) by (intro re_test_Many1_I)
  then show ?L
    by (simp only: s)
qed


text \<open>
  C2, as the code has it. For every raw e-mail input, \<open>validateEmail\<close> accepts it if and
  only if the trimmed value is one or more code units that are neither white space nor
  \<open>@\<close>, then \<open>@\<close>, then one or more such code units, then \<open>.\<close>, then one or more such
  code units: the pattern \<open>[^\s@]+@[^\s@]+\.[^\s@]+\<close>, which allows a single \<open>@\<close>.
\<close>

theorem validateEmail_pattern:
  "valid (validateEmail value) \<longleftrightarrow>
     (\<exists>l d t. trim value = l @ ''@'' @ d @ ''.'' @ t \<and> l \<noteq> [] \<and> d \<noteq> [] \<and> t \<noteq> [] \<and>
        (\<forall>c\<in>set (l @ d @ t). \<not> is_space c \<and> c \<noteq> CHR ''@''))"
proof -
  have "valid (validateEmail value) \<longleftrightarrow> re_test email_re (trim value)"
    by (simp add: validateEmail_def Let_def email_re_def)
  then show ?thesis
    by (simp only: re_test_email_re)
qed

text \<open>The input \<open> a@b.co \<close> is accepted, so its trimmed value splits as the theorem says.\<close>

theorem validateEmail_pattern_witness:
  "valid (validateEmail '' a@b.co '') \<and>
   (\<exists>l d t. trim '' a@b.co '' = l @ ''@'' @ d @ ''.'' @ t \<and> l \<noteq> [] \<and> d \<noteq> [] \<and> t \<noteq> [] \<and>
        (\<forall>c\<in>set (l @ d @ t). \<not> is_space c \<and> c \<noteq> CHR ''@''))"
proof -
  have "valid (validateEmail '' a@b.co '')"
    by (simp add: validateEmail_def trim_def is_space_def email_re_def)
  then show ?thesis
    using validateEmail_pattern[of "'' a@b.co ''"] by blast
qed

text \<open>
  C2 as stated fails: \<open>a@b@c.d\<close> matches \<open>nonspace+@nonspace+.nonspace+\<close> (with \<open>b@c\<close>
  for the second \<open>nonspace+\<close>), and the validator rejects it.
\<close>

theorem validateEmail_nonspace_counterexample:
  "re_test nonspace_email_pattern (trim ''a@b@c.d'') \<and> \<not> valid (validateEmail ''a@b@c.d'')"
  by (simp add: nonspace_email_pattern_def validateEmail_def trim_def is_space_def email_re_def)

section \<open>Persistence: proofs\<close>

text \<open>
  C3. For every state of the store, \<open>loadTodos\<close> returns the empty array when
  \<open>getItem\<close> throws, when the key is absent and when the stored text does not parse;
  for every value to save, \<open>saveTodos\<close> returns a flag (it has no exception to throw),
  which is false exactly when \<open>setItem\<close> throws and true exactly when it returns.
\<close>

theorem load_save_contract:
  "((getItem P st STORAGE_KEY_todo = Throws \<or> getItem P st STORAGE_KEY_todo = Returns None \<or>
      (\<exists>raw. getItem P st STORAGE_KEY_todo = Returns (Some raw) \<and> JSON_parse P raw = None))
     \<longrightarrow> loadTodos P st = VArr [])
   \<and> (fst (saveTodos P st items) = False
        \<longleftrightarrow> setItem P st STORAGE_KEY_todo (JSON_stringify P items) = Throws)
   \<and> (fst (saveTodos P st items) = True
        \<longleftrightarrow> (\<exists>st'. setItem P st STORAGE_KEY_todo (JSON_stringify P items) = Returns st'))"
  by (auto simp: loadTodos_def saveTodos_def split: outcome.splits option.splits)

text \<open>
  A store whose text under the key does not parse loads as the empty array; saving
  fails on the store that refuses writes and succeeds on the one that accepts them.
\<close>

theorem load_save_contract_witness:
  "loadTodos (example_platform True) [STORAGE_KEY_todo \<mapsto> ''{oops''] = VArr []
   \<and> fst (saveTodos (example_platform False) Map.empty (VArr [todo_old])) = False
   \<and> fst (saveTodos (example_platform True) Map.empty (VArr [todo_old])) = True"
proof -
  have 1: "getItem (example_platform True) [STORAGE_KEY_todo \<mapsto> ''{oops''] STORAGE_KEY_todo
             = Returns (Some ''{oops'')"
    and 2: "JSON_parse (example_platform True) ''{oops'' = (None :: todo jsvalue option)"
    and 3: "setItem (example_platform False) Map.empty STORAGE_KEY_todo
              (JSON_stringify (example_platform False) (VArr [todo_old])) = Throws"
    and 4: "setItem (example_platform True) Map.empty STORAGE_KEY_todo
              (JSON_stringify (example_platform True) (VArr [todo_old]))
              = Returns [STORAGE_KEY_todo \<mapsto> ''[{}]'']"
    by (simp_all add: example_platform_def example_parse_def)
  show ?thesis
    using load_save_contract[of "example_platform True" "[STORAGE_KEY_todo \<mapsto> ''{oops'']"]
      load_save_contract[of "example_platform False" Map.empty "VArr [todo_old]"]
      load_save_contract[of "example_platform True" Map.empty "VArr [todo_old]"]
      1 2 3 4
    by blast
qed

text \<open>
  C10. When the text stored under the key is not empty and parses to a value that is
  no array, \<open>loadTodos\<close> and \<open>loadMessages\<close> return that value as it is, not the empty
  array: they check that the text parses and nothing else.
\<close>

theorem load_returns_non_array:
  "(getItem P st STORAGE_KEY_todo = Returns (Some raw) \<and> raw \<noteq> []
      \<and> JSON_parse P raw = Some v \<and> (\<forall>ts. v \<noteq> VArr ts)
     \<longrightarrow> loadTodos P st = v \<and> loadTodos P st \<noteq> VArr [])
   \<and> (getItem Q su STORAGE_KEY_contact = Returns (Some raw') \<and> raw' \<noteq> []
      \<and> JSON_parse Q raw' = Some w \<and> (\<forall>ms. w \<noteq> VArr ms)
     \<longrightarrow> loadMessages Q su = w \<and> loadMessages Q su \<noteq> VArr [])"
  by (simp add: loadTodos_def loadMessages_def)

text \<open>The stored texts \<open>5\<close> and \<open>{}\<close> load as the number 5 and as the empty object.\<close>

theorem load_returns_non_array_witness:
  "loadTodos (example_platform True) [STORAGE_KEY_todo \<mapsto> ''5''] = VNum 5
   \<and> loadMessages (example_platform True) [STORAGE_KEY_contact \<mapsto> ''{}''] = VObj []"
  using load_returns_non_array[of "example_platform True" "[STORAGE_KEY_todo \<mapsto> ''5'']"
      "''5''" "VNum 5" "example_platform True" "[STORAGE_KEY_contact \<mapsto> ''{}'']" "''{}''"
      "VObj []"]
  by (simp add: example_platform_def example_parse_def)

section \<open>List derivation: proofs\<close>

lemma startsWith_prefix: "startsWith s q \<longleftrightarrow> prefix q s"
  by (induction s q rule: startsWith.induct) auto

lemma includesStr_sublist: "includesStr s q \<longleftrightarrow> sublist q s"
  by (induction s) (auto simp: startsWith_prefix sublist_Cons_right)

lemma sort_insert_insort:
  assumes "\<And>y. y \<in> set ys \<Longrightarrow> cmp x y \<le> 0 \<longleftrightarrow> key x \<le> (key y :: int)"
  shows "sort_insert cmp x ys = insort_key key x ys"
  using assms by (induction ys) simp_all

lemma array_sort_sort_key:
  assumes "\<And>x y. x \<in> set xs \<Longrightarrow> y \<in> set xs \<Longrightarrow> cmp x y \<le> 0 \<longleftrightarrow> key x \<le> (key y :: int)"
  shows "array_sort cmp xs = sort_key key xs"
  using assms
proof (induction xs)
  case Nil
  then show ?case by (simp add: array_sort_def)
next
  case (Cons x xs)
  have "array_sort cmp xs = sort_key key xs"
    using Cons by simp
  moreover have "sort_insert cmp x (sort_key key xs) = insort_key key x (sort_key key xs)"
    using Cons.prems by (intro sort_insert_insort) simp
  ultimately show ?case
    by (simp add: array_sort_def)
qed

lemma set_sort_insert: "set (sort_insert cmp x ys) = insert x (set ys)"
  by (induction ys) auto

lemma set_array_sort: "set (array_sort cmp xs) = set xs"
  by (induction xs) (simp_all add: array_sort_def set_sort_insert)

lemma newest_first_le:
  assumes "tv (t_createdAt x) \<noteq> None" and "tv (t_createdAt y) \<noteq> None"
  shows "newest_first tv x y \<le> 0 \<longleftrightarrow> - timestamp tv x \<le> - timestamp tv y"
  using assms by (auto simp: newest_first_def timestamp_def)

lemma search_steps:
  assumes "filterMode \<in> {''all'', ''active'', ''completed''}"
  shows "applyFiltersAndSearch allItems filterMode query
           = derive_unsorted allItems filterMode query"
proof -
  have m: "(if filterMode = ''active'' then filter (\<lambda>t. \<not> t_completed t) allItems
            else if filterMode = ''completed'' then filter (\<lambda>t. t_completed t) allItems
            else allItems) = filter (mode_keeps filterMode) allItems"
    using assms by (auto simp: mode_keeps_def intro: filter_cong)
  have q: "(0 < length (toLowerCase (trim query))) = (trim query \<noteq> [])"
    by (simp add: toLowerCase_def)
  have c: "\<And>t. includesStr (toLowerCase (t_text t)) (toLowerCase (trim query))
            = contains_ci (t_text t) (trim query)"
    by (simp add: contains_ci_def includesStr_sublist)
  show ?thesis
    unfolding applyFiltersAndSearch_def derive_unsorted_def Let_def m q c ..
qed

lemma sorting_after_search:
  "applyFiltersAndSearch_sorting tv allItems filterMode query
     = array_sort (newest_first tv) (applyFiltersAndSearch allItems filterMode query)"
  by (simp add: applyFiltersAndSearch_sorting_def applyFiltersAndSearch_def Let_def)

lemma set_derive_unsorted: "set (derive_unsorted allItems filterMode query) \<subseteq> set allItems"
  by (auto simp: derive_unsorted_def Let_def)

lemma derive_descending:
  "sorted_wrt (\<lambda>a b. timestamp tv b \<le> timestamp tv a) (derive tv allItems filterMode query)"
proof -
  have "sorted (map (\<lambda>t. - timestamp tv t) (derive tv allItems filterMode query))"
    unfolding derive_def by (rule sorted_sort_key)
  then show ?thesis
    by (simp add: sorted_map)
qed

text \<open>
  C1, as the code has it. For every list of todo items, every filter mode in
  \<open>{all, active, completed}\<close> and every query, both copies of \<open>applyFiltersAndSearch\<close>
  keep the items of the filter mode and then, if the query is not empty after
  trimming, the items whose text contains the trimmed query, case ignored. The copy
  that sorts returns these items sorted by creation timestamp, descending (items of
  equal timestamp in their stored order), when every creation date is a valid date;
  the copy in \<open>Dynamic Todo List with Search/script.js\<close> returns them in their
  stored order.
\<close>

theorem derive_steps:
  assumes "filterMode \<in> {''all'', ''active'', ''completed''}"
    and "\<forall>t\<in>set allItems. tv (t_createdAt t) \<noteq> None"
  shows "applyFiltersAndSearch_sorting tv allItems filterMode query
           = derive tv allItems filterMode query
       \<and> sorted_wrt (\<lambda>a b. timestamp tv b \<le> timestamp tv a)
           (applyFiltersAndSearch_sorting tv allItems filterMode query)
       \<and> applyFiltersAndSearch allItems filterMode query
           = derive_unsorted allItems filterMode query"
proof -
  have u: "applyFiltersAndSearch allItems filterMode query
             = derive_unsorted allItems filterMode query"
    using assms(1) by (rule search_steps)
  have "array_sort (newest_first tv) (derive_unsorted allItems filterMode query)
        = sort_key (\<lambda>t. - timestamp tv t) (derive_unsorted allItems filterMode query)"
  proof (rule array_sort_sort_key)
    fix x y
    assume "x \<in> set (derive_unsorted allItems filterMode query)"
      and "y \<in> set (derive_unsorted allItems filterMode query)"
    then have "tv (t_createdAt x) \<noteq> None" "tv (t_createdAt y) \<noteq> None"
      using assms(2) set_derive_unsorted by blast+
    then show "newest_first tv x y \<le> 0 \<longleftrightarrow> - timestamp tv x \<le> - timestamp tv y"
      by (rule newest_first_le)
  qed
  then have s: "applyFiltersAndSearch_sorting tv allItems filterMode query
                  = derive tv allItems filterMode query"
    by (simp add: sorting_after_search u derive_def)
  show ?thesis
    using u s derive_descending[of tv allItems filterMode query] by simp
qed

text \<open>
  Two items stored oldest first: the sorting copy shows the completed one for the query
  \<open> DOM \<close> and puts the newer one first for the empty query; the other copy keeps the
  stored order.
\<close>

theorem derive_steps_witness:
  "''completed'' \<in> {''all'', ''active'', ''completed''}
   \<and> example_tv (t_createdAt todo_old) \<noteq> None
   \<and> example_tv (t_createdAt todo_new) \<noteq> None
   \<and> derive example_tv [todo_old, todo_new] ''completed'' '' DOM '' = [todo_old]
   \<and> derive example_tv [todo_old, todo_new] ''all'' [] = [todo_new, todo_old]
   \<and> derive_unsorted [todo_old, todo_new] ''all'' [] = [todo_old, todo_new]"
proof -
  have v: "\<forall>t\<in>set [todo_old, todo_new]. example_tv (t_createdAt t) \<noteq> None"
    by (simp add: example_tv_def todo_old_def todo_new_def)
  have m: "''completed'' \<in> {''all'', ''active'', ''completed''}"
    "''all'' \<in> {''all'', ''active'', ''completed''}"
    by simp_all
  have l: "toLowerCase ''DOM'' = ''dom''"
    "toLowerCase ''Learn JavaScript DOM'' = ''learn javascript dom''"
    by code_simp+
  have "applyFiltersAndSearch_sorting example_tv [todo_old, todo_new] ''completed'' '' DOM ''
          = [todo_old]"
    by (simp add: applyFiltersAndSearch_sorting_def array_sort_def todo_old_def todo_new_def
        trim_def is_space_def l)
  moreover have "applyFiltersAndSearch_sorting example_tv [todo_old, todo_new] ''all'' []
                   = [todo_new, todo_old]"
    by (simp add: applyFiltersAndSearch_sorting_def array_sort_def newest_first_def
        example_tv_def todo_old_def todo_new_def trim_def toLowerCase_def)
  moreover have "applyFiltersAndSearch [todo_old, todo_new] ''all'' [] = [todo_old, todo_new]"
    by (simp add: applyFiltersAndSearch_def trim_def toLowerCase_def)
  ultimately show ?thesis
    using derive_steps[OF m(1) v, of "'' DOM ''"] derive_steps[OF m(2) v, of "[]"] v
    by simp
qed

text \<open>
  C1 as stated fails on the copy in \<open>Dynamic Todo List with Search/script.js\<close>: on
  two items stored oldest first it returns them oldest first, where the three steps
  of the claim put the newer one first.
\<close>

theorem unsorted_copy_counterexample:
  "applyFiltersAndSearch [todo_old, todo_new] ''all'' []
     \<noteq> derive example_tv [todo_old, todo_new] ''all'' []"
  by (simp add: applyFiltersAndSearch_def derive_def derive_unsorted_def mode_keeps_def
      trim_def toLowerCase_def timestamp_def example_tv_def todo_old_def todo_new_def)

text \<open>
  C6, as the code has it. For every list of todo items and every query \<open>q\<close> that is
  not empty after trimming, every item in the output of either copy for the filter
  mode \<open>completed\<close> and the query \<open>q\<close> is completed and its text contains the trimmed
  \<open>q\<close>, case ignored.
\<close>

theorem completed_search_sound:
  assumes "trim q \<noteq> []"
  shows "\<forall>t\<in>set (applyFiltersAndSearch items ''completed'' q)
            \<union> set (applyFiltersAndSearch_sorting tv items ''completed'' q).
           t_completed t \<and> contains_ci (t_text t) (trim q)"
proof
  fix t
  assume "t \<in> set (applyFiltersAndSearch items ''completed'' q)
            \<union> set (applyFiltersAndSearch_sorting tv items ''completed'' q)"
  then have "t \<in> set (applyFiltersAndSearch items ''completed'' q)"
    by (auto simp: sorting_after_search set_array_sort)
  then have "t \<in> set (derive_unsorted items ''completed'' q)"
    by (simp add: search_steps)
  then show "t_completed t \<and> contains_ci (t_text t) (trim q)"
    using assms by (auto simp: derive_unsorted_def mode_keeps_def)
qed

text \<open>
  For the query \<open> foo \<close> both copies return the completed item \<open>Foo\<close> and leave out the
  active item \<open>Buy food\<close>.
\<close>

theorem completed_search_sound_witness:
  "trim '' foo '' \<noteq> []
   \<and> applyFiltersAndSearch [todo_foo, todo_new] ''completed'' '' foo '' = [todo_foo]
   \<and> applyFiltersAndSearch_sorting example_tv [todo_foo, todo_new] ''completed'' '' foo ''
       = [todo_foo]
   \<and> t_completed todo_foo \<and> contains_ci (t_text todo_foo) (trim '' foo '')"
proof -
  have l: "toLowerCase ''foo'' = ''foo''" "toLowerCase ''Foo'' = ''foo''"
    "toLowerCase ''Buy food'' = ''buy food''"
    by code_simp+
  have q: "trim '' foo '' \<noteq> []"
    by (simp add: trim_def is_space_def)
  have m: "applyFiltersAndSearch [todo_foo, todo_new] ''completed'' '' foo '' = [todo_foo]"
    by (simp add: applyFiltersAndSearch_def todo_foo_def todo_new_def trim_def is_space_def l)
  then have s: "applyFiltersAndSearch_sorting example_tv [todo_foo, todo_new] ''completed''
                  '' foo '' = [todo_foo]"
    by (simp add: sorting_after_search array_sort_def)
  from completed_search_sound[OF q, of "[todo_foo, todo_new]" example_tv] q m s
  show ?thesis by simp
qed

text \<open>
  C6 as stated fails for a query that is not its own trimmed form: for the query
  \<open>foo\<close> followed by a space, the completed item \<open>Foo\<close> is in the output, and its text
  does not contain the query.
\<close>

theorem untrimmed_query_counterexample:
  "''foo '' \<noteq> [] \<and> todo_foo \<in> set (applyFiltersAndSearch [todo_foo] ''completed'' ''foo '')
   \<and> \<not> contains_ci (t_text todo_foo) ''foo ''"
proof -
  have l: "toLowerCase ''foo'' = ''foo''" "toLowerCase ''Foo'' = ''foo''"
    "toLowerCase ''foo '' = ''foo ''"
    by code_simp+
  have "\<not> contains_ci (t_text todo_foo) ''foo ''"
    by (simp add: contains_ci_def includesStr_sublist[symmetric] todo_foo_def l)
  moreover have "todo_foo \<in> set (applyFiltersAndSearch [todo_foo] ''completed'' ''foo '')"
    by (simp add: applyFiltersAndSearch_def todo_foo_def trim_def is_space_def l)
  ultimately show ?thesis by simp
qed

section \<open>Event handlers: proofs\<close>

text \<open>
  C4. For every in-memory list and every confirmed delete of an identifier, in the
  todo list and in the contact form alike: if the write after the removal fails,
  the in-memory value is reset to what the load function returns on the store as it
  was before the delete, the store is still that store, and the error message is
  shown.
\<close>

theorem delete_write_failure:
  "(todos app = VArr ts \<and> i \<noteq> [] \<and>
    setItem P (todoStore app) STORAGE_KEY_todo
      (JSON_stringify P (VArr (filter (\<lambda>t. t_id t \<noteq> i) ts))) = Throws
    \<longrightarrow> todos (todo_click P True (DeleteBtn i) app) = loadTodos P (todoStore app)
      \<and> todoStore (todo_click P True (DeleteBtn i) app) = todoStore app
      \<and> submitMsg (todo_click P True (DeleteBtn i) app)
          = ''Could not delete todo (storage error).'')
   \<and> (messages capp = VArr ms \<and> j \<noteq> [] \<and>
    setItem Q (contactStore capp) STORAGE_KEY_contact
      (JSON_stringify Q (VArr (filter (\<lambda>m. m_id m \<noteq> j) ms))) = Throws
    \<longrightarrow> messages (contact_click Q True (Some j) capp) = loadMessages Q (contactStore capp)
      \<and> contactStore (contact_click Q True (Some j) capp) = contactStore capp
      \<and> globalMsg (contact_click Q True (Some j) capp)
          = ''Could not delete message (storage error).'')"
  by (simp add: todo_click_def contact_click_def saveTodos_def saveMessages_def
      showSubmitMessage_def showGlobalMessage_def)

text \<open>
  On the store that refuses writes, deleting the only todo brings back what the store
  holds, the number 5, and deleting the only message brings back the empty list of
  the empty store.
\<close>

theorem delete_write_failure_witness:
  "todos (todo_click (example_platform False) True (DeleteBtn ''a'') (example_todo_app []))
     = VNum 5
   \<and> submitMsg (todo_click (example_platform False) True (DeleteBtn ''a'') (example_todo_app []))
     = ''Could not delete todo (storage error).''
   \<and> messages (contact_click (example_platform False) True (Some ''m1'')
        (example_contact_app [example_message])) = VArr []
   \<and> globalMsg (contact_click (example_platform False) True (Some ''m1'')
        (example_contact_app [example_message])) = ''Could not delete message (storage error).''"
proof -
  have t: "todos (example_todo_app []) = VArr [todo_old]" "''a'' \<noteq> []"
    "setItem (example_platform False) (todoStore (example_todo_app [])) STORAGE_KEY_todo
      (JSON_stringify (example_platform False)
        (VArr (filter (\<lambda>t. t_id t \<noteq> ''a'') [todo_old]))) = Throws"
    "loadTodos (example_platform False) (todoStore (example_todo_app [])) = VNum 5"
    by (simp_all add: example_todo_app_def example_platform_def example_parse_def
        loadTodos_def)
  have c: "messages (example_contact_app [example_message]) = VArr [example_message]"
    "''m1'' \<noteq> []"
    "setItem (example_platform False) (contactStore (example_contact_app [example_message]))
      STORAGE_KEY_contact
      (JSON_stringify (example_platform False)
        (VArr (filter (\<lambda>m. m_id m \<noteq> ''m1'') [example_message]))) = Throws"
    "loadMessages (example_platform False) (contactStore (example_contact_app [example_message]))
       = VArr []"
    by (simp_all add: example_contact_app_def example_platform_def loadMessages_def)
  have "todos (todo_click (example_platform False) True (DeleteBtn ''a'') (example_todo_app []))
          = VNum 5
        \<and> submitMsg (todo_click (example_platform False) True (DeleteBtn ''a'')
            (example_todo_app [])) = ''Could not delete todo (storage error).''"
    using t delete_write_failure[of "example_todo_app []" "[todo_old]" "''a''"
        "example_platform False", THEN conjunct1]
    by metis
  moreover have "messages (contact_click (example_platform False) True (Some ''m1'')
        (example_contact_app [example_message])) = VArr []
      \<and> globalMsg (contact_click (example_platform False) True (Some ''m1'')
        (example_contact_app [example_message])) = ''Could not delete message (storage error).''"
    using c delete_write_failure[where capp = "example_contact_app [example_message]"
        and ms = "[example_message]" and j = "''m1''" and Q = "example_platform False",
        THEN conjunct2]
    by metis
  ultimately show ?thesis by blast
qed

text \<open>
  C5, as the code has it. For every submission whose fields all validate, made while
  the in-memory value is a list, and whose storage write succeeds: the submit handler
  of the contact form puts a new entity with the trimmed field values in front of the
  list, whose other entries stay as they were, the store is the one the write returned,
  and the three fields are empty. The submit handler of the todo list does the same
  with a text of at least 3 code units after trimming.
\<close>

theorem submit_success:
  "(valid (validateName (nameInput capp)) \<and> valid (validateEmail (emailInput capp))
      \<and> valid (validateMessage (messageInput capp)) \<and> messages capp = VArr ms
      \<and> setItem Q (contactStore capp) STORAGE_KEY_contact
           (JSON_stringify Q (VArr (\<lparr>m_id = newId, m_name = trim (nameInput capp),
              m_email = trim (emailInput capp), m_message = trim (messageInput capp),
              m_sentAt = sentAt\<rparr> # ms))) = Returns su
     \<longrightarrow> messages (contact_submit Q newId sentAt capp)
           = VArr (\<lparr>m_id = newId, m_name = trim (nameInput capp),
              m_email = trim (emailInput capp), m_message = trim (messageInput capp),
              m_sentAt = sentAt\<rparr> # ms)
       \<and> contactStore (contact_submit Q newId sentAt capp) = su
       \<and> nameInput (contact_submit Q newId sentAt capp) = []
       \<and> emailInput (contact_submit Q newId sentAt capp) = []
       \<and> messageInput (contact_submit Q newId sentAt capp) = [])
   \<and> (3 \<le> length (trim (todoInput app)) \<and> todos app = VArr ts
      \<and> setItem P (todoStore app) STORAGE_KEY_todo
           (JSON_stringify P (VArr (\<lparr>t_id = tid, t_text = trim (todoInput app),
              t_completed = False, t_createdAt = now\<rparr> # ts))) = Returns st
     \<longrightarrow> todos (todo_submit P tid now app)
           = VArr (\<lparr>t_id = tid, t_text = trim (todoInput app),
              t_completed = False, t_createdAt = now\<rparr> # ts)
       \<and> todoStore (todo_submit P tid now app) = st
       \<and> todoInput (todo_submit P tid now app) = [])"
proof -
  have "3 \<le> length (trim (todoInput app)) \<Longrightarrow> trim (todoInput app) \<noteq> []"
    by auto
  then show ?thesis
    by (auto simp: contact_submit_def todo_submit_def saveMessages_def saveTodos_def
        showGlobalMessage_def showSubmitMessage_def Let_def)
qed

lemma example_fields_valid:
  "valid (validateName ''Al'')" "valid (validateEmail ''a@b.co'')"
  "valid (validateMessage ''Hello there!!'')"
  by (simp_all add: validateName_def validateEmail_def validateMessage_def trim_def
      is_space_def email_re_def)

text \<open>
  The submission of the name \<open>Al\<close>, the e-mail \<open>a@b.co\<close> and the message
  \<open>Hello there!!\<close> on a store that accepts writes, and of the todo \<open>Buy food\<close>.
\<close>

theorem submit_success_witness:
  "messages (contact_submit (example_platform True) ''id-1'' 1711234567890
      (example_contact_app [example_message]))
     = VArr [\<lparr>m_id = ''id-1'', m_name = ''Al'', m_email = ''a@b.co'',
              m_message = ''Hello there!!'', m_sentAt = 1711234567890\<rparr>, example_message]
   \<and> contactStore (contact_submit (example_platform True) ''id-1'' 1711234567890
      (example_contact_app [example_message])) = [STORAGE_KEY_contact \<mapsto> ''[{}]'']
   \<and> nameInput (contact_submit (example_platform True) ''id-1'' 1711234567890
      (example_contact_app [example_message])) = []
   \<and> todos (todo_submit (example_platform True) ''b'' ''2024-01-16T10:30:00.000Z''
      (example_todo_app '' Buy food ''))
     = VArr [\<lparr>t_id = ''b'', t_text = ''Buy food'', t_completed = False,
              t_createdAt = ''2024-01-16T10:30:00.000Z''\<rparr>, todo_old]
   \<and> todoInput (todo_submit (example_platform True) ''b'' ''2024-01-16T10:30:00.000Z''
      (example_todo_app '' Buy food '')) = []"
proof -
  have i: "nameInput (example_contact_app [example_message]) = ''Al''"
    "emailInput (example_contact_app [example_message]) = ''a@b.co''"
    "messageInput (example_contact_app [example_message]) = ''Hello there!!''"
    "messages (example_contact_app [example_message]) = VArr [example_message]"
    "contactStore (example_contact_app [example_message]) = Map.empty"
    "todoInput (example_todo_app '' Buy food '') = '' Buy food ''"
    "todos (example_todo_app '' Buy food '') = VArr [todo_old]"
    "todoStore (example_todo_app '' Buy food '') = [STORAGE_KEY_todo \<mapsto> ''5'']"
    by (simp_all add: example_contact_app_def example_todo_app_def)
  have t: "trim ''Al'' = ''Al''" "trim ''a@b.co'' = ''a@b.co''"
    "trim ''Hello there!!'' = ''Hello there!!''" "trim '' Buy food '' = ''Buy food''"
    by (simp_all add: trim_def is_space_def)
  have s: "setItem (example_platform True) Map.empty STORAGE_KEY_contact
           (JSON_stringify (example_platform True) (VArr (\<lparr>m_id = ''id-1'', m_name = ''Al'',
              m_email = ''a@b.co'', m_message = ''Hello there!!'',
              m_sentAt = 1711234567890\<rparr> # [example_message])))
         = Returns [STORAGE_KEY_contact \<mapsto> ''[{}]'']"
    "setItem (example_platform True) [STORAGE_KEY_todo \<mapsto> ''5''] STORAGE_KEY_todo
           (JSON_stringify (example_platform True) (VArr (\<lparr>t_id = ''b'', t_text = ''Buy food'',
              t_completed = False, t_createdAt = ''2024-01-16T10:30:00.000Z''\<rparr> # [todo_old])))
         = Returns [STORAGE_KEY_todo \<mapsto> ''[{}]'']"
    "3 \<le> length ''Buy food''"
    by (simp_all add: example_platform_def)
  have "messages (contact_submit (example_platform True) ''id-1'' 1711234567890
      (example_contact_app [example_message]))
     = VArr [\<lparr>m_id = ''id-1'', m_name = ''Al'', m_email = ''a@b.co'',
              m_message = ''Hello there!!'', m_sentAt = 1711234567890\<rparr>, example_message]
   \<and> contactStore (contact_submit (example_platform True) ''id-1'' 1711234567890
      (example_contact_app [example_message])) = [STORAGE_KEY_contact \<mapsto> ''[{}]'']
   \<and> nameInput (contact_submit (example_platform True) ''id-1'' 1711234567890
      (example_contact_app [example_message])) = []"
    using submit_success[of "example_contact_app [example_message]" "[example_message]"
        "example_platform True" "''id-1''" 1711234567890 "[STORAGE_KEY_contact \<mapsto> ''[{}]'']",
        THEN conjunct1] example_fields_valid s(1)
    unfolding i t by blast
  moreover have "todos (todo_submit (example_platform True) ''b'' ''2024-01-16T10:30:00.000Z''
      (example_todo_app '' Buy food ''))
     = VArr [\<lparr>t_id = ''b'', t_text = ''Buy food'', t_completed = False,
              t_createdAt = ''2024-01-16T10:30:00.000Z''\<rparr>, todo_old]
   \<and> todoInput (todo_submit (example_platform True) ''b'' ''2024-01-16T10:30:00.000Z''
      (example_todo_app '' Buy food '')) = []"
    using submit_success[where app = "example_todo_app '' Buy food ''" and ts = "[todo_old]"
        and P = "example_platform True" and tid = "''b''" and now = "''2024-01-16T10:30:00.000Z''"
        and st = "[STORAGE_KEY_todo \<mapsto> ''[{}]'']", THEN conjunct2] s(2,3)
    unfolding i t by blast
  ultimately show ?thesis by blast
qed

text \<open>
  C5 as stated fails when the storage write fails: the same valid submission on a
  store that refuses writes leaves the list without the new entity, the store without
  an entry and the name field filled in.
\<close>

theorem submit_unsaved_counterexample:
  "valid (validateName (nameInput (example_contact_app [])))
   \<and> valid (validateEmail (emailInput (example_contact_app [])))
   \<and> valid (validateMessage (messageInput (example_contact_app [])))
   \<and> messages (contact_submit (example_platform False) ''id-1'' 1711234567890
        (example_contact_app [])) = VArr []
   \<and> contactStore (contact_submit (example_platform False) ''id-1'' 1711234567890
        (example_contact_app [])) STORAGE_KEY_contact = None
   \<and> nameInput (contact_submit (example_platform False) ''id-1'' 1711234567890
        (example_contact_app [])) = ''Al''"
  by (simp add: example_contact_app_def contact_submit_def validateName_def validateEmail_def
      validateMessage_def trim_def is_space_def email_re_def saveMessages_def loadMessages_def
      example_platform_def showGlobalMessage_def)

text \<open>
  C7. For every state of the todo application and every input whose trimmed text is
  not empty and shorter than 3, the submit handler only shows the message
  \<open>Todo must be at least 3 characters.\<close> as an error: the in-memory list and the store
  are as before.
\<close>

theorem short_todo_rejected:
  assumes "trim (todoInput app) \<noteq> []" and "length (trim (todoInput app)) < 3"
  shows "todo_submit P newId now app
           = app\<lparr>submitMsg := ''Todo must be at least 3 characters.'',
                 submitMsgClass := ''error''\<rparr>
       \<and> submitMsg (todo_submit P newId now app) = ''Todo must be at least 3 characters.''
       \<and> todos (todo_submit P newId now app) = todos app
       \<and> todoStore (todo_submit P newId now app) = todoStore app"
  using assms by (simp add: todo_submit_def showSubmitMessage_def Let_def)

text \<open>The todo text \<open>ok\<close> on a store that would accept the write.\<close>

theorem short_todo_rejected_witness:
  "trim (todoInput (example_todo_app ''ok'')) \<noteq> []
   \<and> length (trim (todoInput (example_todo_app ''ok''))) < 3
   \<and> submitMsg (todo_submit (example_platform True) ''b'' ''2024-01-16T10:30:00.000Z''
        (example_todo_app ''ok'')) = ''Todo must be at least 3 characters.''
   \<and> todos (todo_submit (example_platform True) ''b'' ''2024-01-16T10:30:00.000Z''
        (example_todo_app ''ok'')) = VArr [todo_old]
   \<and> todoStore (todo_submit (example_platform True) ''b'' ''2024-01-16T10:30:00.000Z''
        (example_todo_app ''ok'')) = [STORAGE_KEY_todo \<mapsto> ''5'']"
proof -
  have h: "trim (todoInput (example_todo_app ''ok'')) \<noteq> []"
    "length (trim (todoInput (example_todo_app ''ok''))) < 3"
    by (simp_all add: example_todo_app_def trim_def is_space_def)
  have "todos (example_todo_app ''ok'') = VArr [todo_old]"
    "todoStore (example_todo_app ''ok'') = [STORAGE_KEY_todo \<mapsto> ''5'']"
    by (simp_all add: example_todo_app_def)
  with h short_todo_rejected[OF h, of "example_platform True" "''b''"
      "''2024-01-16T10:30:00.000Z''"]
  show ?thesis by simp
qed

text \<open>
  C8. For every in-memory list and every identifier that no item of the list has,
  the removal \<open>filter(x => x.id !== id)\<close> returns the list itself; so when the
  write that follows succeeds, the click handler leaves the in-memory list as it was.
  This holds for todos and for messages.
\<close>

theorem delete_unknown_id:
  "(i \<notin> t_id ` set ts \<longrightarrow> filter (\<lambda>t. t_id t \<noteq> i) ts = ts)
   \<and> (i \<notin> t_id ` set ts \<and> todos app = VArr ts \<and> fst (saveTodos P (todoStore app) (VArr ts))
        \<longrightarrow> todos (todo_click P confirmed (DeleteBtn i) app) = VArr ts)
   \<and> (j \<notin> m_id ` set ms \<longrightarrow> filter (\<lambda>m. m_id m \<noteq> j) ms = ms)
   \<and> (j \<notin> m_id ` set ms \<and> messages capp = VArr ms
        \<and> fst (saveMessages Q (contactStore capp) (VArr ms))
        \<longrightarrow> messages (contact_click Q confirmed (Some j) capp) = VArr ms)"
proof -
  have t: "filter (\<lambda>t. t_id t \<noteq> i) ts = ts" if "i \<notin> t_id ` set ts"
    using that by (induction ts) auto
  have m: "filter (\<lambda>m. m_id m \<noteq> j) ms = ms" if "j \<notin> m_id ` set ms"
    using that by (induction ms) auto
  show ?thesis
    by (auto simp: t m todo_click_def contact_click_def Let_def split: prod.splits)
qed

text \<open>Deleting the identifiers \<open>zzz\<close> and \<open>m9\<close>, which no item has.\<close>

theorem delete_unknown_id_witness:
  "''zzz'' \<notin> t_id ` set [todo_old] \<and> ''m9'' \<notin> m_id ` set [example_message]
   \<and> todos (todo_click (example_platform True) True (DeleteBtn ''zzz'') (example_todo_app []))
       = VArr [todo_old]
   \<and> messages (contact_click (example_platform True) True (Some ''m9'')
        (example_contact_app [example_message])) = VArr [example_message]"
proof -
  have h: "''zzz'' \<notin> t_id ` set [todo_old]" "todos (example_todo_app []) = VArr [todo_old]"
    "fst (saveTodos (example_platform True) (todoStore (example_todo_app [])) (VArr [todo_old]))"
    "''m9'' \<notin> m_id ` set [example_message]"
    "messages (example_contact_app [example_message]) = VArr [example_message]"
    "fst (saveMessages (example_platform True) (contactStore (example_contact_app [example_message]))
       (VArr [example_message]))"
    by (simp_all add: todo_old_def example_message_def example_todo_app_def
        example_contact_app_def saveTodos_def saveMessages_def example_platform_def)
  then show ?thesis
    using delete_unknown_id[of "''zzz''" "[todo_old]" "example_todo_app []"
        "example_platform True" True "''m9''" "[example_message]"
        "example_contact_app [example_message]" "example_platform True"]
    by blast
qed

end
